theory Spec2Isabelle
  imports Complex_Main "HOL-Library.Multiset"
begin

section \<open>Data of \<^verbatim>\<open>run_backtest_2024.py\<close>\<close>

text \<open>
  The script drives an external simulation function over a universe of assets, folds the
  per-asset results into portfolio totals, ranks the assets and writes a summary document.

  Numbers: a Python \<^verbatim>\<open>int\<close> is an \<^typ>\<open>int\<close>; a Python \<^verbatim>\<open>float\<close> is read as the
  \<^typ>\<open>real\<close> it denotes, so sums and products are exact (rounding is outside this model).
  A dictionary with a fixed set of keys is a record; a key that \<^verbatim>\<open>.get(key, default)\<close>
  may find absent is an \<^typ>\<open>'a option\<close> field.
\<close>

type_synonym asset_id = string

text \<open>A trade as the engine reports it; only the key \<^verbatim>\<open>rr\<close> is read.\<close>

record trade =
  rr :: "real option"

text \<open>The dictionary returned by \<^verbatim>\<open>run_backtest(asset, period)\<close>.\<close>

record sim_result =
  total_trades :: "int option"
  win_rate :: "real option"
  net_return_pct :: "real option"
  trades :: "trade list option"
  max_drawdown_pct :: "real option"
  tp1_trail_hits :: "int option"
  tp2_hits :: "int option"
  tp3_hits :: "int option"
  sl_hits :: "int option"

text \<open>An entry of \<^verbatim>\<open>all_results\<close> (lines 95-107).\<close>

record asset_summary =
  asset :: asset_id
  trades :: int
  win_rate :: real
  total_r :: real
  return_pct :: real
  max_dd_pct :: real
  tp1_hits :: int
  tp2_hits :: int
  tp3_hits :: int
  sl_hits :: int
  full_result :: sim_result

text \<open>An entry of \<^verbatim>\<open>output_data['by_asset']\<close> (lines 187-194).\<close>

record asset_row =
  asset :: asset_id
  trades :: int
  win_rate :: real
  total_r :: real
  return_pct :: real
  max_dd_pct :: real

text \<open>\<^verbatim>\<open>output_data['summary']['exit_breakdown']\<close> (lines 179-184).\<close>

record exit_breakdown =
  tp1_trail :: int
  tp2 :: int
  tp3 :: int
  sl :: int

text \<open>\<^verbatim>\<open>output_data['summary']\<close> (lines 170-185).\<close>

record summary =
  total_assets_tested :: nat
  assets_with_trades :: nat
  total_trades :: int
  win_rate :: real
  total_r :: real
  avg_r_per_trade :: real
  net_return_pct :: real
  net_profit_usd :: real
  exit_breakdown :: exit_breakdown

text \<open>\<^verbatim>\<open>output_data\<close> (lines 164-197).\<close>

record output_data =
  period :: string
  generated_at :: string
  account_size :: real
  risk_per_trade_pct :: real
  signal_mode :: string
  summary :: summary
  by_asset :: "asset_row list"

text \<open>
  The names imported from the module \<^verbatim>\<open>config\<close> (lines 49-57). The module is not part of
  the script, so its values are a parameter of the model.
\<close>

record config =
  FOREX_PAIRS :: "asset_id list"
  METALS :: "asset_id list"
  INDICES :: "asset_id list"
  CRYPTO_ASSETS :: "asset_id list"
  ACCOUNT_SIZE :: real
  RISK_PER_TRADE_PCT :: real
  SIGNAL_MODE :: string

text \<open>
  Exceptions. \<^verbatim>\<open>run_backtest\<close> may raise any \<^verbatim>\<open>Exception\<close>; the script only reads its
  message \<^verbatim>\<open>str(e)\<close>. A true division by zero raises \<^verbatim>\<open>ZeroDivisionError\<close>.
\<close>

datatype py_error = ZeroDivisionError | Exception string

fun str :: "py_error \<Rightarrow> string" where
  "str ZeroDivisionError = ''division by zero''"
| "str (Exception msg) = msg"

text \<open>
  The external simulation function \<^verbatim>\<open>run_backtest\<close> of the module \<^verbatim>\<open>backtest\<close>: it returns a
  result dictionary or raises. It is a parameter of the model, a function of the asset and
  the period.
\<close>

type_synonym simulation = "asset_id \<Rightarrow> string \<Rightarrow> py_error + sim_result"

section \<open>Console output\<close>

text \<open>
  The console is the sequence of fragments written so far. A literal piece of an f-string is
  \<open>Lit\<close>; a formatted field keeps its value and its format specification instead of the
  rendered characters.
\<close>

datatype frag =
    Lit string
  | Fmt_str string string
  | Fmt_int int string
  | Fmt_num real string

definition nl :: string where
  "nl = [CHR 0x0A]"

text \<open>\<^verbatim>\<open>print(f"...")\<close> and \<^verbatim>\<open>print(f"...", end=e)\<close>.\<close>

definition py_print :: "frag list \<Rightarrow> frag list" where
  "py_print fs = fs @ [Lit nl]"

definition py_print_end :: "frag list \<Rightarrow> string \<Rightarrow> frag list" where
  "py_print_end fs e = fs @ [Lit e]"

text \<open>\<^verbatim>\<open>"=" * 70\<close>\<close>

definition rule70 :: string where
  "rule70 = replicate 70 (CHR ''='')"

section \<open>Python primitives used by the script\<close>

text \<open>\<^verbatim>\<open>d.get(key, default)\<close> on an optional field.\<close>

definition get :: "'a option \<Rightarrow> 'a \<Rightarrow> 'a" where
  "get v d = (case v of None \<Rightarrow> d | Some x \<Rightarrow> x)"

text \<open>True division \<^verbatim>\<open>a / b\<close>.\<close>

definition py_div :: "real \<Rightarrow> real \<Rightarrow> py_error + real" where
  "py_div a b = (if b = 0 then Inl ZeroDivisionError else Inr (a / b))"

text \<open>
  \<^verbatim>\<open>xs.sort(key=k, reverse=True)\<close>. The library sorts stably; with \<^verbatim>\<open>reverse=True\<close> it
  reverses the list, sorts it stably in ascending key order and reverses the result, so
  equal keys keep their original order. \<^const>\<open>sort_key\<close> is a stable insertion sort.
\<close>

definition sort_reverse :: "('a \<Rightarrow> real) \<Rightarrow> 'a list \<Rightarrow> 'a list" where
  "sort_reverse k xs = rev (sort_key k (rev xs))"

section \<open>The credential gate (lines 23-45)\<close>

text \<open>\<^verbatim>\<open>not v\<close> for the result of \<^verbatim>\<open>os.getenv\<close>: true for \<^verbatim>\<open>None\<close> and for the empty string.\<close>

definition py_not :: "string option \<Rightarrow> bool" where
  "py_not v = (case v of None \<Rightarrow> True | Some s \<Rightarrow> s = [])"

definition credentials_message :: "frag list" where
  "credentials_message =
     py_print [Lit rule70] @
     py_print [Lit ''OANDA API CREDENTIALS REQUIRED''] @
     py_print [Lit rule70] @
     py_print [] @
     py_print [Lit ''Please set the following environment variables:''] @
     py_print [Lit (''  export OANDA_API_KEY='' @ [CHR 0x27] @ ''your_api_key'' @ [CHR 0x27])] @
     py_print [Lit (''  export OANDA_ACCOUNT_ID='' @ [CHR 0x27] @ ''your_account_id'' @ [CHR 0x27])] @
     py_print [] @
     py_print [Lit ''Or configure them as GitHub Secrets and run via GitHub Actions.''] @
     py_print [Lit rule70]"

text \<open>The environment is a map from variable names to values; the result is what was printed and the returned flag.\<close>

definition check_credentials :: "(string \<rightharpoonup> string) \<Rightarrow> frag list \<times> bool" where
  "check_credentials getenv =
     (let api_key = getenv ''OANDA_API_KEY'';
          account_id = getenv ''OANDA_ACCOUNT_ID''
      in if py_not api_key \<or> py_not account_id
         then (credentials_message, False)
         else ([], True))"

section \<open>The per-asset loop (lines 74-118)\<close>

text \<open>The variables the loop updates, and the console.\<close>

record loop_state =
  all_results :: "asset_summary list"
  total_trades_all :: int
  total_wins_all :: int
  total_r_all :: real
  console :: "frag list"

definition period_label :: string where
  "period_label = ''Jan 2024 - Dec 2024''"

text \<open>Lines 64-72 and 81.\<close>

definition header :: "config \<Rightarrow> nat \<Rightarrow> frag list" where
  "header cfg n =
     py_print [Lit rule70] @
     py_print [Lit ''BLUEPRINT TRADER AI - BACKTEST''] @
     py_print [Lit rule70] @
     py_print [Lit ''Period: '', Lit period_label] @
     py_print [Lit ''Account Size: $'', Fmt_num (ACCOUNT_SIZE cfg) '',.0f''] @
     py_print [Lit ''Risk per Trade: '', Fmt_num (RISK_PER_TRADE_PCT cfg * 100) ''.1f'', Lit ''%''] @
     py_print [Lit ''Signal Mode: '', Lit (SIGNAL_MODE cfg)] @
     py_print [Lit rule70] @
     py_print [] @
     py_print [Lit ''Testing '', Fmt_int (int n) [], Lit '' assets...'', Lit nl]"

text \<open>Line 74.\<close>

definition all_assets :: "config \<Rightarrow> asset_id list" where
  "all_assets cfg = FOREX_PAIRS cfg @ METALS cfg @ INDICES cfg @ CRYPTO_ASSETS cfg"

text \<open>Line 93: \<^verbatim>\<open>sum(t.get('rr', 0) for t in trades) if trades else 0\<close>.\<close>

definition sum_rr :: "trade list \<Rightarrow> real" where
  "sum_rr ts = (if ts \<noteq> [] then sum_list (map (\<lambda>t. get (rr t) 0) ts) else 0)"

text \<open>Line 110: \<^verbatim>\<open>sum(1 for t in trades if t.get('rr', 0) > 0)\<close>.\<close>

definition count_wins :: "trade list \<Rightarrow> int" where
  "count_wins ts = sum_list (map (\<lambda>t. 1) (filter (\<lambda>t. get (rr t) 0 > 0) ts))"

text \<open>Lines 95-107: the entry appended for a result with trades.\<close>

definition make_entry :: "asset_id \<Rightarrow> sim_result \<Rightarrow> asset_summary" where
  "make_entry a result =
     \<lparr> asset_summary.asset = a,
       asset_summary.trades = get (sim_result.total_trades result) 0,
       asset_summary.win_rate = get (sim_result.win_rate result) 0,
       asset_summary.total_r = sum_rr (get (sim_result.trades result) []),
       asset_summary.return_pct = get (sim_result.net_return_pct result) 0,
       asset_summary.max_dd_pct = get (max_drawdown_pct result) 0,
       tp1_hits = get (tp1_trail_hits result) 0,
       asset_summary.tp2_hits = get (sim_result.tp2_hits result) 0,
       asset_summary.tp3_hits = get (sim_result.tp3_hits result) 0,
       asset_summary.sl_hits = get (sim_result.sl_hits result) 0,
       full_result = result \<rparr>"

text \<open>
  The body of the \<^verbatim>\<open>for\<close> loop (lines 84-118) for the pair \<open>(i, asset)\<close> of
  \<^verbatim>\<open>enumerate(all_assets, 1)\<close>, with \<open>n = len(all_assets)\<close>. An exception of
  \<^verbatim>\<open>run_backtest\<close> is caught, printed, and the loop goes on.
\<close>

definition loop_body :: "simulation \<Rightarrow> nat \<Rightarrow> nat \<times> asset_id \<Rightarrow> loop_state \<Rightarrow> loop_state" where
  "loop_body run_backtest n ia st =
     (let i = fst ia; a = snd ia;
          st1 = st\<lparr>console := console st @
                  py_print_end [Lit ''['', Fmt_int (int i) ''2d'', Lit ''/'', Fmt_int (int n) [],
                                Lit ''] '', Lit a, Lit ''...''] '' ''\<rparr>
      in case run_backtest a period_label of
           Inl e \<Rightarrow> st1\<lparr>console := console st1 @ py_print [Lit ''ERROR: '', Lit (str e)]\<rparr>
         | Inr result \<Rightarrow>
             (let total_trades = get (sim_result.total_trades result) 0
              in if total_trades > 0 then
                   (let win_rate = get (sim_result.win_rate result) 0;
                        trades = get (sim_result.trades result) [];
                        total_r = sum_rr trades
                    in st1\<lparr>all_results := all_results st1 @ [make_entry a result],
                           total_trades_all := total_trades_all st1 + total_trades,
                           total_wins_all := total_wins_all st1 + count_wins trades,
                           total_r_all := total_r_all st1 + total_r,
                           console := console st1 @
                             py_print [Fmt_int total_trades [], Lit '' trades, '',
                                       Fmt_num win_rate ''.1f'', Lit ''% WR, '',
                                       Fmt_num total_r ''+.2f'', Lit ''R'']\<rparr>)
                 else st1\<lparr>console := console st1 @ py_print [Lit ''No trades'']\<rparr>))"

text \<open>Lines 76-79: the state before the loop, after the header was printed.\<close>

definition initial_state :: "config \<Rightarrow> loop_state" where
  "initial_state cfg =
     \<lparr> all_results = [], total_trades_all = 0, total_wins_all = 0, total_r_all = 0,
       console = header cfg (length (all_assets cfg)) \<rparr>"

text \<open>Lines 83-118: the loop over \<^verbatim>\<open>enumerate(all_assets, 1)\<close>.\<close>

definition run_loop :: "simulation \<Rightarrow> asset_id list \<Rightarrow> loop_state \<Rightarrow> loop_state" where
  "run_loop run_backtest assets st =
     fold (loop_body run_backtest (length assets)) (enumerate 1 assets) st"

section \<open>The summary (lines 120-205)\<close>

text \<open>Line 130: \<^verbatim>\<open>all_results.sort(key=lambda x: x['total_r'], reverse=True)\<close>.\<close>

definition rank :: "asset_summary list \<Rightarrow> asset_summary list" where
  "rank rs = sort_reverse asset_summary.total_r rs"

text \<open>Line 160: \<^verbatim>\<open>all_results[:10]\<close>.\<close>

definition top_10 :: "asset_summary list \<Rightarrow> asset_summary list" where
  "top_10 rs = take 10 rs"

text \<open>Lines 133-136: the combined metrics.\<close>

definition avg_win_rate :: "int \<Rightarrow> int \<Rightarrow> py_error + real" where
  "avg_win_rate wins n =
     (if n > 0
      then (case py_div (real_of_int wins) (real_of_int n) of
              Inl e \<Rightarrow> Inl e
            | Inr q \<Rightarrow> Inr (q * 100))
      else Inr 0)"

definition avg_r :: "real \<Rightarrow> int \<Rightarrow> py_error + real" where
  "avg_r r n = (if n > 0 then py_div r (real_of_int n) else Inr 0)"

definition total_return_pct :: "config \<Rightarrow> real \<Rightarrow> real" where
  "total_return_pct cfg r = r * RISK_PER_TRADE_PCT cfg * 100"

definition total_profit_usd :: "config \<Rightarrow> real \<Rightarrow> real" where
  "total_profit_usd cfg r = ACCOUNT_SIZE cfg * (total_return_pct cfg r / 100)"

text \<open>Lines 154-157: \<^verbatim>\<open>total_tp1/total_trades_all*100\<close>, with no guard on the denominator.\<close>

definition hit_pct :: "int \<Rightarrow> int \<Rightarrow> py_error + real" where
  "hit_pct hits n =
     (case py_div (real_of_int hits) (real_of_int n) of
        Inl e \<Rightarrow> Inl e
      | Inr q \<Rightarrow> Inr (q * 100))"

definition exit_line :: "string \<Rightarrow> int \<Rightarrow> int \<Rightarrow> py_error + frag list" where
  "exit_line label hits n =
     (case hit_pct hits n of
        Inl e \<Rightarrow> Inl e
      | Inr p \<Rightarrow> Inr (py_print [Lit label, Fmt_int hits [], Lit '' ('', Fmt_num p ''.1f'', Lit ''%)'']))"

text \<open>Lines 153-157; the first line that raises ends the block.\<close>

definition exit_lines :: "exit_breakdown \<Rightarrow> int \<Rightarrow> py_error + frag list" where
  "exit_lines eb n =
     (case exit_line ''  TP1+Trail: '' (tp1_trail eb) n of Inl e \<Rightarrow> Inl e | Inr l1 \<Rightarrow>
      case exit_line ''  TP2: '' (tp2 eb) n of Inl e \<Rightarrow> Inl e | Inr l2 \<Rightarrow>
      case exit_line ''  TP3: '' (tp3 eb) n of Inl e \<Rightarrow> Inl e | Inr l3 \<Rightarrow>
      case exit_line ''  SL: '' (sl eb) n of Inl e \<Rightarrow> Inl e | Inr l4 \<Rightarrow>
      Inr (py_print [Lit nl, Lit ''Exit Breakdown:''] @ l1 @ l2 @ l3 @ l4))"

text \<open>Lines 148-151.\<close>

definition exit_totals :: "asset_summary list \<Rightarrow> exit_breakdown" where
  "exit_totals rs =
     \<lparr> tp1_trail = sum_list (map tp1_hits rs),
       tp2 = sum_list (map asset_summary.tp2_hits rs),
       tp3 = sum_list (map asset_summary.tp3_hits rs),
       sl = sum_list (map asset_summary.sl_hits rs) \<rparr>"

text \<open>Lines 138-145.\<close>

definition performance_lines :: "nat \<Rightarrow> int \<Rightarrow> real \<Rightarrow> real \<Rightarrow> real \<Rightarrow> real \<Rightarrow> real \<Rightarrow> frag list" where
  "performance_lines k n wr r ar ret usd =
     py_print [Lit nl, Lit ''Period: '', Lit period_label] @
     py_print [Lit ''Assets with Trades: '', Fmt_int (int k) []] @
     py_print [Lit nl, Lit ''Combined Performance:''] @
     py_print [Lit ''  Total Trades: '', Fmt_int n []] @
     py_print [Lit ''  Win Rate: '', Fmt_num wr ''.1f'', Lit ''%''] @
     py_print [Lit ''  Total R: '', Fmt_num r ''+.2f'', Lit ''R''] @
     py_print [Lit ''  Avg R/Trade: '', Fmt_num ar ''+.2f'', Lit ''R''] @
     py_print [Lit ''  Net Return: '', Fmt_num ret ''+.1f'', Lit ''% ($'', Fmt_num usd ''+,.2f'', Lit '')'']"

text \<open>Lines 159-161.\<close>

definition performer_line :: "nat \<times> asset_summary \<Rightarrow> frag list" where
  "performer_line ir =
     (let i = fst ir; res = snd ir
      in py_print [Lit ''  '', Fmt_int (int i) ''2d'', Lit ''. '',
                   Fmt_str (asset_summary.asset res) ''<12'', Lit '' '',
                   Fmt_int (asset_summary.trades res) ''3d'', Lit '' trades, '',
                   Fmt_num (asset_summary.win_rate res) ''.1f'', Lit ''% WR, '',
                   Fmt_num (asset_summary.total_r res) ''+.2f'', Lit ''R ('',
                   Fmt_num (asset_summary.return_pct res) ''+.1f'', Lit ''%)''])"

definition top_lines :: "asset_summary list \<Rightarrow> frag list" where
  "top_lines rs =
     py_print [Lit nl, Lit ''Top 10 Performers:''] @
     concat (map performer_line (enumerate 1 (top_10 rs)))"

text \<open>Lines 187-194.\<close>

definition row_of :: "asset_summary \<Rightarrow> asset_row" where
  "row_of r =
     \<lparr> asset_row.asset = asset_summary.asset r,
       asset_row.trades = asset_summary.trades r,
       asset_row.win_rate = asset_summary.win_rate r,
       asset_row.total_r = asset_summary.total_r r,
       asset_row.return_pct = asset_summary.return_pct r,
       asset_row.max_dd_pct = asset_summary.max_dd_pct r \<rparr>"

text \<open>
  Lines 164-197. \<open>now\<close> is \<^verbatim>\<open>datetime.now().isoformat()\<close>; \<open>rs\<close> is the sorted
  \<^verbatim>\<open>all_results\<close>.
\<close>

definition make_output_data ::
  "config \<Rightarrow> string \<Rightarrow> asset_summary list \<Rightarrow> int \<Rightarrow> real \<Rightarrow> real \<Rightarrow> real \<Rightarrow> exit_breakdown \<Rightarrow> output_data" where
  "make_output_data cfg now rs n wr r ar eb =
     \<lparr> period = period_label,
       generated_at = now,
       account_size = ACCOUNT_SIZE cfg,
       risk_per_trade_pct = RISK_PER_TRADE_PCT cfg * 100,
       signal_mode = SIGNAL_MODE cfg,
       summary =
         \<lparr> total_assets_tested = length (FOREX_PAIRS cfg @ METALS cfg @ INDICES cfg @ CRYPTO_ASSETS cfg),
           assets_with_trades = length rs,
           total_trades = n,
           win_rate = wr,
           total_r = r,
           avg_r_per_trade = ar,
           net_return_pct = total_return_pct cfg r,
           net_profit_usd = total_profit_usd cfg r,
           exit_breakdown = eb \<rparr>,
       by_asset = map row_of rs \<rparr>"

text \<open>
  What a call of \<^verbatim>\<open>run_full_backtest\<close> leaves behind when it returns: the console, the
  document handed to \<^verbatim>\<open>json.dump\<close> for \<^verbatim>\<open>backtest_results_2024.json\<close> (\<open>None\<close> when the
  file is not written), and the returned dictionary (\<open>None\<close> is the empty dictionary
  \<^verbatim>\<open>{}\<close> of line 127). A failure of the file system while writing is outside the model.
\<close>

record run_outcome =
  printed :: "frag list"
  written :: "output_data option"
  returned :: "output_data option"

text \<open>
  Lines 120-205, from the state the loop left. An exception of this part is not caught:
  it leaves \<^verbatim>\<open>run_full_backtest\<close>, and the model returns it.
\<close>

definition summarise :: "config \<Rightarrow> string \<Rightarrow> loop_state \<Rightarrow> py_error + run_outcome" where
  "summarise cfg now st =
     (let out0 = console st @ py_print [] @ py_print [Lit rule70] @
                 py_print [Lit ''SUMMARY''] @ py_print [Lit rule70]
      in if all_results st = [] then
           Inr \<lparr> printed = out0 @ py_print [Lit ''No trades found in the specified period.''],
                 written = None, returned = None \<rparr>
         else
           (let rs = rank (all_results st);
                n = total_trades_all st;
                r = total_r_all st
            in case avg_win_rate (total_wins_all st) n of Inl e \<Rightarrow> Inl e | Inr wr \<Rightarrow>
               case avg_r r n of Inl e \<Rightarrow> Inl e | Inr ar \<Rightarrow>
               (let eb = exit_totals rs;
                    out1 = out0 @ performance_lines (length rs) n wr r ar
                                    (total_return_pct cfg r) (total_profit_usd cfg r)
                in case exit_lines eb n of Inl e \<Rightarrow> Inl e | Inr ls \<Rightarrow>
                   (let output_data = make_output_data cfg now rs n wr r ar eb
                    in Inr \<lparr> printed = out1 @ ls @ top_lines rs @
                                   py_print [Lit nl, Lit ''Results saved to: backtest_results_2024.json''] @
                                   py_print [Lit rule70],
                             written = Some output_data,
                             returned = Some output_data \<rparr>))))"

text \<open>\<^verbatim>\<open>run_full_backtest()\<close> (lines 60-205).\<close>

definition run_full_backtest :: "config \<Rightarrow> simulation \<Rightarrow> string \<Rightarrow> py_error + run_outcome" where
  "run_full_backtest cfg run_backtest now =
     summarise cfg now (run_loop run_backtest (all_assets cfg) (initial_state cfg))"

section \<open>The script (lines 44-45 and 208-209)\<close>

text \<open>
  How a run of the script ends: \<^verbatim>\<open>sys.exit(1)\<close> after the credential message, a
  completed \<^verbatim>\<open>run_full_backtest()\<close>, or an exception that nothing caught.
\<close>

datatype process =
    Sys_exit int "frag list"
  | Completed run_outcome
  | Uncaught py_error

definition script :: "(string \<rightharpoonup> string) \<Rightarrow> config \<Rightarrow> simulation \<Rightarrow> string \<Rightarrow> process" where
  "script getenv cfg run_backtest now =
     (let c = check_credentials getenv
      in if \<not> snd c then Sys_exit 1 (fst c)
         else (case run_full_backtest cfg run_backtest now of
                 Inl e \<Rightarrow> Uncaught e
               | Inr out \<Rightarrow> Completed out))"

section \<open>Notions used to state the properties, and concrete runs\<close>

text \<open>
  What one pass of the loop body appends to \<^verbatim>\<open>all_results\<close> (lines 86-107): nothing when
  \<^verbatim>\<open>run_backtest\<close> raises or reports no trades, one entry otherwise.
\<close>

definition appended :: "simulation \<Rightarrow> asset_id \<Rightarrow> asset_summary list" where
  "appended run_backtest a =
     (case run_backtest a period_label of
        Inl e \<Rightarrow> []
      | Inr result \<Rightarrow>
          if get (sim_result.total_trades result) 0 > 0 then [make_entry a result] else [])"

text \<open>The trade list of the result kept under \<^verbatim>\<open>full_result\<close>, as line 92 reads it.\<close>

definition entry_trades :: "asset_summary \<Rightarrow> trade list" where
  "entry_trades r = get (sim_result.trades (full_result r)) []"

text \<open>
  The document of lines 164-197 for the state the loop left, with the values lines 133-134
  compute when \<^verbatim>\<open>total_trades_all > 0\<close>.
\<close>

definition report_of :: "config \<Rightarrow> string \<Rightarrow> loop_state \<Rightarrow> output_data" where
  "report_of cfg now st =
     make_output_data cfg now (rank (all_results st)) (total_trades_all st)
       (real_of_int (total_wins_all st) / real_of_int (total_trades_all st) * 100)
       (total_r_all st)
       (total_r_all st / real_of_int (total_trades_all st))
       (exit_totals (rank (all_results st)))"

text \<open>A small configuration and simulations for concrete runs.\<close>

definition demo_config :: config where
  "demo_config =
     \<lparr> FOREX_PAIRS = [''EURUSD''], METALS = [''XAUUSD''], INDICES = [],
       CRYPTO_ASSETS = [''BTCUSD''], ACCOUNT_SIZE = 10000, RISK_PER_TRADE_PCT = 1 / 100,
       SIGNAL_MODE = ''standard'' \<rparr>"

text \<open>The empty result dictionary \<^verbatim>\<open>{}\<close>.\<close>

definition no_fields :: sim_result where
  "no_fields =
     \<lparr> sim_result.total_trades = None, sim_result.win_rate = None,
       sim_result.net_return_pct = None, sim_result.trades = None,
       max_drawdown_pct = None, tp1_trail_hits = None, sim_result.tp2_hits = None,
       sim_result.tp3_hits = None, sim_result.sl_hits = None \<rparr>"

text \<open>Two trades with \<^verbatim>\<open>rr\<close> 2 and -1, win rate 50, net return 1.\<close>

definition eurusd_result :: sim_result where
  "eurusd_result =
     no_fields\<lparr> sim_result.total_trades := Some 2, sim_result.win_rate := Some 50,
                sim_result.net_return_pct := Some 1,
                sim_result.trades := Some [\<lparr>rr = Some 2\<rparr>, \<lparr>rr = Some (- 1)\<rparr>] \<rparr>"

text \<open>EURUSD trades, XAUUSD has no trades, every other asset raises.\<close>

definition demo_sim :: simulation where
  "demo_sim a p =
     (if a = ''EURUSD'' then Inr eurusd_result
      else if a = ''XAUUSD'' then Inr (no_fields\<lparr> sim_result.total_trades := Some 0 \<rparr>)
      else Inl (Exception ''no candles''))"

text \<open>No asset has any trade.\<close>

definition idle_sim :: simulation where
  "idle_sim a p = Inr no_fields"

text \<open>
  The run returned a summary document whose win rate and average R per trade are both 0.
\<close>

definition summary_with_zero_rates :: "py_error + run_outcome \<Rightarrow> bool" where
  "summary_with_zero_rates res =
     (case res of
        Inl e \<Rightarrow> False
      | Inr out \<Rightarrow>
          (case returned out of
             None \<Rightarrow> False
           | Some d \<Rightarrow> summary.win_rate (summary d) = 0 \<and> avg_r_per_trade (summary d) = 0))"


text \<open>EURUSD has two trades with \<^verbatim>\<open>rr\<close> 12 and 8; no other asset trades.\<close>

definition twenty_sim :: simulation where
  "twenty_sim a p =
     (if a = ''EURUSD'' then
        Inr (no_fields\<lparr> sim_result.total_trades := Some 2,
                        sim_result.trades := Some [\<lparr>rr = Some 12\<rparr>, \<lparr>rr = Some 8\<rparr>] \<rparr>)
      else Inr no_fields)"

text \<open>Every asset reports three trades and no trade list.\<close>

definition ghost_sim :: simulation where
  "ghost_sim a p = Inr (no_fields\<lparr> sim_result.total_trades := Some 3 \<rparr>)"

text \<open>The same configuration without BTCUSD.\<close>

definition demo_config_short :: config where
  "demo_config_short = demo_config\<lparr> CRYPTO_ASSETS := [] \<rparr>"

text \<open>Environments for the credential gate.\<close>

definition env_both :: "string \<rightharpoonup> string" where
  "env_both = [''OANDA_API_KEY'' \<mapsto> ''key'', ''OANDA_ACCOUNT_ID'' \<mapsto> ''001-001'']"

text \<open>The account identifier is set to the empty string.\<close>

definition env_empty_id :: "string \<rightharpoonup> string" where
  "env_empty_id = [''OANDA_API_KEY'' \<mapsto> ''key'', ''OANDA_ACCOUNT_ID'' \<mapsto> '''']"

text \<open>EURUSD reports four trades and lists one, a win; no other asset trades.\<close>

definition padded_sim :: simulation where
  "padded_sim a p =
     (if a = ''EURUSD'' then
        Inr (no_fields\<lparr> sim_result.total_trades := Some 4,
                        sim_result.trades := Some [\<lparr>rr = Some 1\<rparr>] \<rparr>)
      else Inr no_fields)"

section \<open>Properties\<close>

lemma loop_body_all_results:
  "all_results (loop_body sim n (i, a) st) = all_results st @ appended sim a"
  by (simp add: loop_body_def appended_def Let_def split: sum.splits)

lemma loop_body_total_trades_all:
  "total_trades_all (loop_body sim n (i, a) st) =
     total_trades_all st + sum_list (map asset_summary.trades (appended sim a))"
  by (simp add: loop_body_def appended_def make_entry_def Let_def split: sum.splits)

lemma loop_body_total_r_all:
  "total_r_all (loop_body sim n (i, a) st) =
     total_r_all st + sum_list (map asset_summary.total_r (appended sim a))"
  by (simp add: loop_body_def appended_def make_entry_def Let_def split: sum.splits)

lemma loop_body_total_wins_all:
  "total_wins_all (loop_body sim n (i, a) st) =
     total_wins_all st + sum_list (map (\<lambda>r. count_wins (entry_trades r)) (appended sim a))"
  by (simp add: loop_body_def appended_def make_entry_def entry_trades_def Let_def split: sum.splits)

lemma fold_all_results:
  "all_results (fold (loop_body sim n) (enumerate k xs) st) =
     all_results st @ concat (map (appended sim) xs)"
  by (induction xs arbitrary: k st) (simp_all add: loop_body_all_results)

lemma fold_total_trades_all:
  "total_trades_all (fold (loop_body sim n) (enumerate k xs) st) =
     total_trades_all st + sum_list (map asset_summary.trades (concat (map (appended sim) xs)))"
  by (induction xs arbitrary: k st) (simp_all add: loop_body_total_trades_all)

lemma fold_total_r_all:
  "total_r_all (fold (loop_body sim n) (enumerate k xs) st) =
     total_r_all st + sum_list (map asset_summary.total_r (concat (map (appended sim) xs)))"
  by (induction xs arbitrary: k st) (simp_all add: loop_body_total_r_all)

lemma fold_total_wins_all:
  "total_wins_all (fold (loop_body sim n) (enumerate k xs) st) =
     total_wins_all st + sum_list (map (\<lambda>r. count_wins (entry_trades r)) (concat (map (appended sim) xs)))"
  by (induction xs arbitrary: k st) (simp_all add: loop_body_total_wins_all)

lemma appended_trades_pos: "r \<in> set (appended sim a) \<Longrightarrow> 0 < asset_summary.trades r"
  by (auto simp: appended_def make_entry_def split: sum.splits if_splits)

lemma sum_list_pos_int:
  fixes f :: "'a \<Rightarrow> int"
  shows "rs \<noteq> [] \<Longrightarrow> (\<And>r. r \<in> set rs \<Longrightarrow> 0 < f r) \<Longrightarrow> 0 < sum_list (map f rs)"
proof (induction rs)
  case Nil
  then show ?case by simp
next
  case (Cons r rs)
  have "0 < f r" using Cons.prems by simp
  moreover have "0 \<le> sum_list (map f rs)"
    using Cons.prems by (intro sum_list_nonneg) (auto intro: less_imp_le)
  ultimately show ?case by simp
qed

lemma run_loop_trades_pos:
  assumes "st = run_loop sim xs (initial_state cfg)" and "all_results st \<noteq> []"
  shows "0 < total_trades_all st"
proof -
  let ?rs = "concat (map (appended sim) xs)"
  have rs: "all_results st = ?rs"
    using assms(1) by (simp add: run_loop_def fold_all_results initial_state_def)
  have tot: "total_trades_all st = sum_list (map asset_summary.trades ?rs)"
    using assms(1) by (simp add: run_loop_def fold_total_trades_all initial_state_def)
  have pos: "\<And>r. r \<in> set ?rs \<Longrightarrow> 0 < asset_summary.trades r"
    by (auto dest: appended_trades_pos)
  have "?rs \<noteq> []" using assms(2) rs by simp
  then have "0 < sum_list (map asset_summary.trades ?rs)"
    using pos by (rule sum_list_pos_int)
  then show ?thesis using tot by simp
qed

lemma count_wins_length: "count_wins ts = int (length (filter (\<lambda>t. get (rr t) 0 > 0) ts))"
  by (simp add: count_wins_def sum_list_triv)

lemma sum_rr_eq: "sum_rr ts = sum_list (map (\<lambda>t. get (rr t) 0) ts)"
  by (simp add: sum_rr_def)

lemma hit_pct_ok: "n \<noteq> 0 \<Longrightarrow> hit_pct h n = Inr (real_of_int h / real_of_int n * 100)"
  by (simp add: hit_pct_def py_div_def)

lemma exit_lines_ok: "n \<noteq> 0 \<Longrightarrow> \<exists>ls. exit_lines eb n = Inr ls"
  by (simp add: exit_lines_def exit_line_def hit_pct_ok)

lemma summarise_ok:
  assumes "all_results st \<noteq> []" and "0 < total_trades_all st"
  shows "\<exists>p. summarise cfg now st =
           Inr \<lparr> printed = p, written = Some (report_of cfg now st),
                 returned = Some (report_of cfg now st) \<rparr>"
proof -
  obtain ls where ls: "exit_lines (exit_totals (rank (all_results st))) (total_trades_all st) = Inr ls"
    using exit_lines_ok [of "total_trades_all st"] assms(2) by auto
  show ?thesis
    using assms ls
    by (simp add: summarise_def avg_win_rate_def avg_r_def py_div_def report_of_def Let_def)
qed

lemma summarise_empty:
  assumes "all_results st = []"
  shows "summarise cfg now st =
           Inr \<lparr> printed = console st @ py_print [] @ py_print [Lit rule70] @
                      py_print [Lit ''SUMMARY''] @ py_print [Lit rule70] @
                      py_print [Lit ''No trades found in the specified period.''],
                 written = None, returned = None \<rparr>"
  using assms by (simp add: summarise_def Let_def)

lemma rank_mset: "mset (rank rs) = mset rs"
  by (simp add: rank_def sort_reverse_def)

lemma sum_list_rank: 
  fixes f :: "asset_summary \<Rightarrow> 'b::comm_monoid_add"
  shows "sum_list (map f (rank rs)) = sum_list (map f rs)"
proof -
  have "mset (map f (rank rs)) = mset (map f rs)"
    by (simp add: rank_mset)
  then show ?thesis
    by (metis sum_mset_sum_list)
qed

lemma run_loop_all_results:
  "all_results (run_loop sim xs (initial_state cfg)) = concat (map (appended sim) xs)"
  by (simp add: run_loop_def fold_all_results initial_state_def)

lemma run_loop_total_trades_all:
  "total_trades_all (run_loop sim xs (initial_state cfg)) =
     sum_list (map asset_summary.trades (concat (map (appended sim) xs)))"
  by (simp add: run_loop_def fold_total_trades_all initial_state_def)

lemma run_loop_total_r_all:
  "total_r_all (run_loop sim xs (initial_state cfg)) =
     sum_list (map asset_summary.total_r (concat (map (appended sim) xs)))"
  by (simp add: run_loop_def fold_total_r_all initial_state_def)

lemma run_loop_total_wins_all:
  "total_wins_all (run_loop sim xs (initial_state cfg)) =
     sum_list (map (\<lambda>r. count_wins (entry_trades r)) (concat (map (appended sim) xs)))"
  by (simp add: run_loop_def fold_total_wins_all initial_state_def)

lemma run_full_backtest_ok:
  assumes "st = run_loop sim (all_assets cfg) (initial_state cfg)" and "all_results st \<noteq> []"
  shows "\<exists>p. run_full_backtest cfg sim now =
           Inr \<lparr> printed = p, written = Some (report_of cfg now st),
                 returned = Some (report_of cfg now st) \<rparr>"
  using assms summarise_ok [of st cfg now] run_loop_trades_pos [of st sim "all_assets cfg" cfg]
  by (simp add: run_full_backtest_def)

text \<open>
  Claim C5. After the loop, when at least one asset qualified: \<open>total_r_all\<close> is the sum of
  the entries' \<open>total_r\<close>, \<open>total_wins_all\<close> is the number of trades with \<open>rr > 0\<close> over
  the entries' trade lists, and \<open>total_trades_all\<close> is the sum of the entries' trade counts.
  The returned document carries the same totals: they are the sums over its \<open>by_asset\<close>
  rows.
\<close>

theorem portfolio_totals:
  assumes "st = run_loop sim (all_assets cfg) (initial_state cfg)" and "all_results st \<noteq> []"
  shows "total_r_all st = sum_list (map asset_summary.total_r (all_results st)) \<and>
         total_wins_all st =
           sum_list (map (\<lambda>r. int (length (filter (\<lambda>t. get (rr t) 0 > 0) (entry_trades r))))
                         (all_results st)) \<and>
         total_trades_all st = sum_list (map asset_summary.trades (all_results st)) \<and>
         (\<exists>out d. run_full_backtest cfg sim now = Inr out \<and> returned out = Some d \<and>
            summary.total_r (summary d) = sum_list (map asset_row.total_r (by_asset d)) \<and>
            summary.total_trades (summary d) = sum_list (map asset_row.trades (by_asset d)))"
proof -
  have r: "total_r_all st = sum_list (map asset_summary.total_r (all_results st))"
    using assms(1) by (simp add: run_loop_all_results run_loop_total_r_all)
  have n: "total_trades_all st = sum_list (map asset_summary.trades (all_results st))"
    using assms(1) by (simp add: run_loop_all_results run_loop_total_trades_all)
  have w: "total_wins_all st =
             sum_list (map (\<lambda>r. int (length (filter (\<lambda>t. get (rr t) 0 > 0) (entry_trades r))))
                           (all_results st))"
    using assms(1)
    by (simp add: run_loop_all_results run_loop_total_wins_all count_wins_length)
  obtain p where run: "run_full_backtest cfg sim now =
      Inr \<lparr> printed = p, written = Some (report_of cfg now st),
            returned = Some (report_of cfg now st) \<rparr>"
    using run_full_backtest_ok [OF assms] by blast
  have rows_r: "sum_list (map asset_row.total_r (by_asset (report_of cfg now st))) =
                  sum_list (map asset_summary.total_r (all_results st))"
    using sum_list_rank [of asset_summary.total_r "all_results st"]
    by (simp add: report_of_def make_output_data_def row_of_def comp_def)
  have rows_n: "sum_list (map asset_row.trades (by_asset (report_of cfg now st))) =
                  sum_list (map asset_summary.trades (all_results st))"
    using sum_list_rank [of asset_summary.trades "all_results st"]
    by (simp add: report_of_def make_output_data_def row_of_def comp_def)
  have "summary.total_r (summary (report_of cfg now st)) = total_r_all st"
       "summary.total_trades (summary (report_of cfg now st)) = total_trades_all st"
    by (simp_all add: report_of_def make_output_data_def)
  with r n w run rows_r rows_n show ?thesis by simp
qed

theorem portfolio_totals_witness:
  "all_results (run_loop demo_sim (all_assets demo_config) (initial_state demo_config)) \<noteq> [] \<and>
   total_r_all (run_loop demo_sim (all_assets demo_config) (initial_state demo_config)) = 1 \<and>
   total_wins_all (run_loop demo_sim (all_assets demo_config) (initial_state demo_config)) = 1 \<and>
   total_trades_all (run_loop demo_sim (all_assets demo_config) (initial_state demo_config)) = 2"
proof -
  let ?st = "run_loop demo_sim (all_assets demo_config) (initial_state demo_config)"
  have rs: "all_results ?st = [make_entry ''EURUSD'' eurusd_result]"
    by (simp add: run_loop_all_results all_assets_def demo_config_def appended_def demo_sim_def
                  eurusd_result_def no_fields_def get_def)
  then have ne: "all_results ?st \<noteq> []" by simp
  from portfolio_totals [OF refl ne, of "''t''"] rs show ?thesis
    by (simp add: make_entry_def eurusd_result_def no_fields_def get_def sum_rr_def entry_trades_def)
qed

lemma run_loop_no_trades:
  assumes "st = run_loop sim xs (initial_state cfg)" and "total_trades_all st = 0"
  shows "all_results st = []"
  using run_loop_trades_pos [OF assms(1)] assms(2) by fastforce

text \<open>
  Claim C1, as the code has it. When the loop ends with \<open>total_trades_all = 0\<close>, no asset
  qualified: \<^verbatim>\<open>run_full_backtest\<close> raises nothing, prints the line
  \<^verbatim>\<open>No trades found in the specified period.\<close> after the summary heading, writes no file and
  returns the empty dictionary, so no summary document (and no rate field) is produced. The
  guarded formulas of lines 133-134, which the early return skips, give 0 at these totals.
\<close>

theorem no_trades_run:
  assumes "st = run_loop sim (all_assets cfg) (initial_state cfg)" and "total_trades_all st = 0"
  shows "run_full_backtest cfg sim now =
           Inr \<lparr> printed = console st @ py_print [] @ py_print [Lit rule70] @
                      py_print [Lit ''SUMMARY''] @ py_print [Lit rule70] @
                      py_print [Lit ''No trades found in the specified period.''],
                 written = None, returned = None \<rparr> \<and>
         avg_win_rate (total_wins_all st) (total_trades_all st) = Inr 0 \<and>
         avg_r (total_r_all st) (total_trades_all st) = Inr 0"
proof -
  have "all_results st = []"
    using assms by (rule run_loop_no_trades)
  then have "summarise cfg now st =
           Inr \<lparr> printed = console st @ py_print [] @ py_print [Lit rule70] @
                      py_print [Lit ''SUMMARY''] @ py_print [Lit rule70] @
                      py_print [Lit ''No trades found in the specified period.''],
                 written = None, returned = None \<rparr>"
    by (rule summarise_empty)
  then show ?thesis
    using assms by (simp add: run_full_backtest_def avg_win_rate_def avg_r_def)
qed

lemma idle_totals:
  "total_trades_all (run_loop idle_sim (all_assets demo_config) (initial_state demo_config)) = 0"
  by (simp add: run_loop_total_trades_all all_assets_def demo_config_def appended_def
                idle_sim_def no_fields_def get_def)

theorem no_trades_run_witness:
  "total_trades_all (run_loop idle_sim (all_assets demo_config) (initial_state demo_config)) = 0 \<and>
   map_sum id returned (run_full_backtest demo_config idle_sim ''2024-12-31T00:00:00'') = Inr None \<and>
   map_sum id written (run_full_backtest demo_config idle_sim ''2024-12-31T00:00:00'') = Inr None"
  using no_trades_run [OF refl idle_totals, of "''2024-12-31T00:00:00''"] idle_totals
  by simp

text \<open>
  Claim C1 as stated asks for a portfolio summary whose rates are 0. In the run of
  \<open>idle_sim\<close>, where no asset trades, \<open>total_trades_all\<close> is 0 and the returned value is
  not such a summary.
\<close>

theorem no_summary_counterexample:
  "total_trades_all (run_loop idle_sim (all_assets demo_config) (initial_state demo_config)) = 0 \<and>
   \<not> summary_with_zero_rates (run_full_backtest demo_config idle_sim ''2024-12-31T00:00:00'')"
proof -
  have "all_results (run_loop idle_sim (all_assets demo_config) (initial_state demo_config)) = []"
    by (simp add: run_loop_all_results all_assets_def demo_config_def appended_def
                  idle_sim_def no_fields_def get_def)
  then show ?thesis
    by (simp add: idle_totals run_full_backtest_def summarise_empty summary_with_zero_rates_def)
qed

text \<open>
  Claim C2. Every run of \<^verbatim>\<open>run_full_backtest\<close> returns: no division raises. The guarded
  formulas for the win rate and the average R give 0 at a zero denominator. When at least
  one asset qualified, \<open>total_trades_all\<close> is positive, so the guarded formulas are the
  quotients, and the exit-breakdown percentages of lines 154-157, which have no guard, are
  evaluated with a positive denominator and succeed.
\<close>

theorem divisions_guarded:
  assumes "st = run_loop sim (all_assets cfg) (initial_state cfg)"
  shows "(\<exists>out. run_full_backtest cfg sim now = Inr out) \<and>
         avg_win_rate wins 0 = Inr 0 \<and>
         avg_r r 0 = Inr 0 \<and>
         (all_results st \<noteq> [] \<longrightarrow>
            0 < total_trades_all st \<and>
            avg_win_rate (total_wins_all st) (total_trades_all st) =
              Inr (real_of_int (total_wins_all st) / real_of_int (total_trades_all st) * 100) \<and>
            avg_r (total_r_all st) (total_trades_all st) =
              Inr (total_r_all st / real_of_int (total_trades_all st)) \<and>
            (\<forall>hits. hit_pct hits (total_trades_all st) =
              Inr (real_of_int hits / real_of_int (total_trades_all st) * 100)) \<and>
            (\<exists>ls. exit_lines (exit_totals (rank (all_results st))) (total_trades_all st) = Inr ls))"
proof -
  have run: "\<exists>out. run_full_backtest cfg sim now = Inr out"
  proof (cases "all_results st = []")
    case True
    then show ?thesis
      using assms by (simp add: run_full_backtest_def summarise_empty)
  next
    case False
    then show ?thesis
      using run_full_backtest_ok [OF assms, of now] by blast
  qed
  have guards: "avg_win_rate wins 0 = Inr 0" "avg_r r 0 = Inr 0"
    by (simp_all add: avg_win_rate_def avg_r_def)
  have "0 < total_trades_all st \<and>
        avg_win_rate (total_wins_all st) (total_trades_all st) =
          Inr (real_of_int (total_wins_all st) / real_of_int (total_trades_all st) * 100) \<and>
        avg_r (total_r_all st) (total_trades_all st) =
          Inr (total_r_all st / real_of_int (total_trades_all st)) \<and>
        (\<forall>hits. hit_pct hits (total_trades_all st) =
          Inr (real_of_int hits / real_of_int (total_trades_all st) * 100)) \<and>
        (\<exists>ls. exit_lines (exit_totals (rank (all_results st))) (total_trades_all st) = Inr ls)"
    if ne: "all_results st \<noteq> []"
  proof -
    have pos: "0 < total_trades_all st"
      using assms ne by (rule run_loop_trades_pos)
    then show ?thesis
      by (simp add: avg_win_rate_def avg_r_def py_div_def hit_pct_ok exit_lines_ok)
  qed
  with run guards show ?thesis by blast
qed

lemma demo_all_results:
  "all_results (run_loop demo_sim (all_assets demo_config) (initial_state demo_config)) =
     [make_entry ''EURUSD'' eurusd_result]"
  by (simp add: run_loop_all_results all_assets_def demo_config_def appended_def demo_sim_def
                eurusd_result_def no_fields_def get_def)

theorem divisions_guarded_witness:
  "all_results (run_loop demo_sim (all_assets demo_config) (initial_state demo_config)) \<noteq> [] \<and>
   0 < total_trades_all (run_loop demo_sim (all_assets demo_config) (initial_state demo_config)) \<and>
   (\<exists>out. run_full_backtest demo_config demo_sim ''2024-12-31T00:00:00'' = Inr out) \<and>
   (\<exists>out. run_full_backtest demo_config idle_sim ''2024-12-31T00:00:00'' = Inr out)"
  using divisions_guarded [OF refl, of demo_config demo_sim "''2024-12-31T00:00:00''"]
        divisions_guarded [OF refl, of demo_config idle_sim "''2024-12-31T00:00:00''"]
        demo_all_results
  by simp





text \<open>
  Claim C4. When \<^verbatim>\<open>run_backtest\<close> returns a result with \<open>total_trades > 0\<close>, the loop body
  appends one entry whose \<open>total_r\<close> is the sum of the trades' \<^verbatim>\<open>rr\<close> values, an absent
  \<^verbatim>\<open>rr\<close> (and an absent trade list) counting 0, and adds it to \<open>total_r_all\<close>. The entry's
  \<open>win_rate\<close> and \<open>return_pct\<close> are the engine's fields, and \<open>total_r\<close> does not depend
  on them.
\<close>

theorem total_r_recomputed:
  assumes "run_backtest a period_label = Inr result"
    and "0 < get (sim_result.total_trades result) 0"
  shows "all_results (loop_body run_backtest n (i, a) st) = all_results st @ [make_entry a result] \<and>
         total_r_all (loop_body run_backtest n (i, a) st) =
           total_r_all st + asset_summary.total_r (make_entry a result) \<and>
         asset_summary.total_r (make_entry a result) =
           sum_list (map (\<lambda>t. get (rr t) 0) (get (sim_result.trades result) [])) \<and>
         asset_summary.win_rate (make_entry a result) = get (sim_result.win_rate result) 0 \<and>
         asset_summary.return_pct (make_entry a result) = get (sim_result.net_return_pct result) 0 \<and>
         asset_summary.total_r
           (make_entry a (result\<lparr>sim_result.win_rate := w, sim_result.net_return_pct := p\<rparr>)) =
           asset_summary.total_r (make_entry a result)"
proof -
  have app: "appended run_backtest a = [make_entry a result]"
    using assms by (simp add: appended_def)
  show ?thesis
    by (simp add: loop_body_all_results loop_body_total_r_all app)
       (simp add: make_entry_def sum_rr_eq)
qed

theorem total_r_recomputed_witness:
  "demo_sim ''EURUSD'' period_label = Inr eurusd_result \<and>
   0 < get (sim_result.total_trades eurusd_result) 0 \<and>
   asset_summary.total_r (make_entry ''EURUSD'' eurusd_result) = 1 \<and>
   asset_summary.win_rate (make_entry ''EURUSD'' eurusd_result) = 50 \<and>
   asset_summary.return_pct (make_entry ''EURUSD'' eurusd_result) = 1 \<and>
   all_results (loop_body demo_sim 3 (1, ''EURUSD'') (initial_state demo_config)) =
     [make_entry ''EURUSD'' eurusd_result]"
proof -
  have r: "demo_sim ''EURUSD'' period_label = Inr eurusd_result"
    by (simp add: demo_sim_def)
  have q: "0 < get (sim_result.total_trades eurusd_result) 0"
    by (simp add: eurusd_result_def no_fields_def get_def)
  show ?thesis
    using r q total_r_recomputed [where run_backtest = demo_sim and a = "''EURUSD''"
            and result = eurusd_result and n = 3 and i = 1 and st = "initial_state demo_config",
            OF r q]
    by (simp add: eurusd_result_def no_fields_def get_def initial_state_def)
qed

lemma appended_raises: "sim x period_label = Inl e \<Longrightarrow> appended sim x = []"
  by (simp add: appended_def)

text \<open>
  Claim C6. When \<^verbatim>\<open>run_backtest\<close> raises for the asset \<open>x\<close>, the loop body prints the
  progress prefix naming \<open>x\<close> and then \<^verbatim>\<open>ERROR:\<close> with the message, and leaves
  \<open>all_results\<close> and the three totals as they were. A run over a universe
  \<open>xs @ x # ys\<close> ends with the same \<open>all_results\<close> and totals as the run over
  \<open>xs @ ys\<close>: the entries of the assets before and after \<open>x\<close>, so the loop went on.
\<close>

theorem failing_asset_isolated:
  assumes "sim x period_label = Inl e"
    and "all_assets cfg = xs @ x # ys"
    and "all_assets cfg' = xs @ ys"
    and "st = run_loop sim (all_assets cfg) (initial_state cfg)"
    and "st' = run_loop sim (all_assets cfg') (initial_state cfg')"
  shows "console (loop_body sim n (i, x) s) =
           console s @
           py_print_end [Lit ''['', Fmt_int (int i) ''2d'', Lit ''/'', Fmt_int (int n) [],
                         Lit ''] '', Lit x, Lit ''...''] '' '' @
           py_print [Lit ''ERROR: '', Lit (str e)] \<and>
         all_results (loop_body sim n (i, x) s) = all_results s \<and>
         total_trades_all (loop_body sim n (i, x) s) = total_trades_all s \<and>
         total_wins_all (loop_body sim n (i, x) s) = total_wins_all s \<and>
         total_r_all (loop_body sim n (i, x) s) = total_r_all s \<and>
         all_results st = all_results st' \<and>
         total_trades_all st = total_trades_all st' \<and>
         total_wins_all st = total_wins_all st' \<and>
         total_r_all st = total_r_all st' \<and>
         all_results st = concat (map (appended sim) xs) @ concat (map (appended sim) ys)"
proof -
  have x: "appended sim x = []"
    using assms(1) by (rule appended_raises)
  have body: "console (loop_body sim n (i, x) s) =
           console s @
           py_print_end [Lit ''['', Fmt_int (int i) ''2d'', Lit ''/'', Fmt_int (int n) [],
                         Lit ''] '', Lit x, Lit ''...''] '' '' @
           py_print [Lit ''ERROR: '', Lit (str e)]"
    using assms(1) by (simp add: loop_body_def Let_def)
  have same: "concat (map (appended sim) (xs @ x # ys)) = concat (map (appended sim) (xs @ ys))"
    using x by simp
  have step: "all_results (loop_body sim n (i, x) s) = all_results s"
             "total_trades_all (loop_body sim n (i, x) s) = total_trades_all s"
             "total_wins_all (loop_body sim n (i, x) s) = total_wins_all s"
             "total_r_all (loop_body sim n (i, x) s) = total_r_all s"
    by (simp_all add: loop_body_all_results loop_body_total_trades_all
                      loop_body_total_wins_all loop_body_total_r_all x)
  have runs: "all_results st = all_results st'" "total_trades_all st = total_trades_all st'"
             "total_wins_all st = total_wins_all st'" "total_r_all st = total_r_all st'"
    using assms(2-5) same
    by (simp_all only: run_loop_all_results run_loop_total_trades_all
                       run_loop_total_wins_all run_loop_total_r_all)
  have "all_results st = concat (map (appended sim) xs) @ concat (map (appended sim) ys)"
    using assms(2,4) x by (simp add: run_loop_all_results)
  with body step runs show ?thesis by simp
qed

theorem failing_asset_isolated_witness:
  "demo_sim ''BTCUSD'' period_label = Inl (Exception ''no candles'') \<and>
   all_assets demo_config = [''EURUSD'', ''XAUUSD''] @ ''BTCUSD'' # [] \<and>
   all_assets demo_config_short = [''EURUSD'', ''XAUUSD''] @ [] \<and>
   all_results (run_loop demo_sim (all_assets demo_config) (initial_state demo_config)) =
     all_results (run_loop demo_sim (all_assets demo_config_short) (initial_state demo_config_short)) \<and>
   all_results (run_loop demo_sim (all_assets demo_config) (initial_state demo_config)) =
     [make_entry ''EURUSD'' eurusd_result]"
proof -
  have a: "demo_sim ''BTCUSD'' period_label = Inl (Exception ''no candles'')"
    by (simp add: demo_sim_def)
  have b: "all_assets demo_config = [''EURUSD'', ''XAUUSD''] @ ''BTCUSD'' # []"
    by (simp add: all_assets_def demo_config_def)
  have c: "all_assets demo_config_short = [''EURUSD'', ''XAUUSD''] @ []"
    by (simp add: all_assets_def demo_config_short_def demo_config_def)
  show ?thesis
    using a b c demo_all_results
      failing_asset_isolated [where sim = demo_sim and x = "''BTCUSD''"
        and e = "Exception ''no candles''" and cfg = demo_config and cfg' = demo_config_short
        and xs = "[''EURUSD'', ''XAUUSD'']" and ys = "[]", OF a b c refl refl]
    by simp
qed

lemma run_returns: "\<exists>out. run_full_backtest cfg sim now = Inr out"
proof (cases "all_results (run_loop sim (all_assets cfg) (initial_state cfg)) = []")
  case True
  then show ?thesis
    by (simp add: run_full_backtest_def summarise_empty)
next
  case False
  then show ?thesis
    using run_full_backtest_ok [OF refl, of sim cfg now] by blast
qed

text \<open>
  Claim C7. When at least one asset qualified, the run returns and writes a document whose
  \<open>net_return_pct\<close> is \<open>total_r_all * RISK_PER_TRADE_PCT * 100\<close> and whose
  \<open>net_profit_usd\<close> is \<open>ACCOUNT_SIZE * (net_return_pct / 100)\<close>. With an account size of
  10000, a risk per trade of 0.01 and \<open>total_r_all = 20\<close> these are 20 and 2000. The
  arithmetic is that of the reals; the rounding of floats is outside the model.
\<close>

theorem net_return_and_profit:
  assumes "st = run_loop sim (all_assets cfg) (initial_state cfg)" and "all_results st \<noteq> []"
  shows "\<exists>out d. run_full_backtest cfg sim now = Inr out \<and>
           returned out = Some d \<and> written out = Some d \<and>
           summary.total_r (summary d) = total_r_all st \<and>
           summary.net_return_pct (summary d) = total_r_all st * RISK_PER_TRADE_PCT cfg * 100 \<and>
           net_profit_usd (summary d) =
             ACCOUNT_SIZE cfg * (summary.net_return_pct (summary d) / 100) \<and>
           (ACCOUNT_SIZE cfg = 10000 \<and> RISK_PER_TRADE_PCT cfg = 1 / 100 \<and> total_r_all st = 20 \<longrightarrow>
              summary.net_return_pct (summary d) = 20 \<and> net_profit_usd (summary d) = 2000)"
proof -
  obtain p where run: "run_full_backtest cfg sim now =
      Inr \<lparr> printed = p, written = Some (report_of cfg now st),
            returned = Some (report_of cfg now st) \<rparr>"
    using run_full_backtest_ok [OF assms] by blast
  have "summary.total_r (summary (report_of cfg now st)) = total_r_all st"
       "summary.net_return_pct (summary (report_of cfg now st)) =
          total_r_all st * RISK_PER_TRADE_PCT cfg * 100"
       "net_profit_usd (summary (report_of cfg now st)) =
          ACCOUNT_SIZE cfg * (summary.net_return_pct (summary (report_of cfg now st)) / 100)"
    by (simp_all add: report_of_def make_output_data_def total_return_pct_def
                      total_profit_usd_def)
  with run show ?thesis by simp
qed

lemma twenty_all_results:
  "all_results (run_loop twenty_sim (all_assets demo_config) (initial_state demo_config)) =
     [make_entry ''EURUSD''
        (no_fields\<lparr> sim_result.total_trades := Some 2,
                    sim_result.trades := Some [\<lparr>rr = Some 12\<rparr>, \<lparr>rr = Some 8\<rparr>] \<rparr>)]"
  by (simp add: run_loop_all_results all_assets_def demo_config_def appended_def twenty_sim_def
                no_fields_def get_def)

lemma twenty_total_r:
  "total_r_all (run_loop twenty_sim (all_assets demo_config) (initial_state demo_config)) = 20"
  by (simp add: run_loop_total_r_all all_assets_def demo_config_def appended_def twenty_sim_def
                no_fields_def get_def make_entry_def sum_rr_def)

theorem net_return_and_profit_witness:
  "all_results (run_loop twenty_sim (all_assets demo_config) (initial_state demo_config)) \<noteq> [] \<and>
   ACCOUNT_SIZE demo_config = 10000 \<and> RISK_PER_TRADE_PCT demo_config = 1 / 100 \<and>
   total_r_all (run_loop twenty_sim (all_assets demo_config) (initial_state demo_config)) = 20 \<and>
   (\<exists>out d. run_full_backtest demo_config twenty_sim ''2024-12-31T00:00:00'' = Inr out \<and>
      returned out = Some d \<and>
      summary.net_return_pct (summary d) = 20 \<and> net_profit_usd (summary d) = 2000)"
proof -
  have ne: "all_results (run_loop twenty_sim (all_assets demo_config) (initial_state demo_config)) \<noteq> []"
    by (simp add: twenty_all_results)
  have cfg: "ACCOUNT_SIZE demo_config = 10000" "RISK_PER_TRADE_PCT demo_config = 1 / 100"
    by (simp_all add: demo_config_def)
  show ?thesis
    using net_return_and_profit [OF refl ne, of "''2024-12-31T00:00:00''"] ne cfg twenty_total_r
    by auto
qed

text \<open>
  Claim C8. If \<^verbatim>\<open>OANDA_API_KEY\<close> or \<^verbatim>\<open>OANDA_ACCOUNT_ID\<close> is missing from the environment or
  is the empty string, \<^verbatim>\<open>check_credentials\<close> prints the instructional message and returns
  \<^verbatim>\<open>False\<close>, and the script ends with \<^verbatim>\<open>sys.exit(1)\<close> having printed nothing else: the
  outcome is the same for every simulation function and configuration, none is consulted.
  The message is the ten lines of lines 29-38, written out here fragment by fragment: the
  heading between two rules of 70 \<^verbatim>\<open>=\<close>, the request to set the variables, one
  \<^verbatim>\<open>export\<close> line for each of the two variables by name, the hint at GitHub Secrets and a
  closing rule, every line ended by a newline.
  If both are set and non-empty, the check prints nothing and returns \<^verbatim>\<open>True\<close>, and the
  script goes on to a completed \<^verbatim>\<open>run_full_backtest()\<close>.
\<close>

theorem credential_gate:
  "(getenv ''OANDA_API_KEY'' = None \<or> getenv ''OANDA_API_KEY'' = Some [] \<or>
    getenv ''OANDA_ACCOUNT_ID'' = None \<or> getenv ''OANDA_ACCOUNT_ID'' = Some [] \<longrightarrow>
      check_credentials getenv = (credentials_message, False) \<and>
      script getenv cfg sim now = Sys_exit 1 credentials_message \<and>
      script getenv cfg sim now = Sys_exit 1
     [Lit (replicate 70 (CHR ''='')), Lit [CHR 0x0A],
      Lit ''OANDA API CREDENTIALS REQUIRED'', Lit [CHR 0x0A],
      Lit (replicate 70 (CHR ''='')), Lit [CHR 0x0A],
      Lit [CHR 0x0A],
      Lit ''Please set the following environment variables:'', Lit [CHR 0x0A],
      Lit (''  export OANDA_API_KEY='' @ [CHR 0x27] @ ''your_api_key'' @ [CHR 0x27]),
      Lit [CHR 0x0A],
      Lit (''  export OANDA_ACCOUNT_ID='' @ [CHR 0x27] @ ''your_account_id'' @ [CHR 0x27]),
      Lit [CHR 0x0A],
      Lit [CHR 0x0A],
      Lit ''Or configure them as GitHub Secrets and run via GitHub Actions.'', Lit [CHR 0x0A],
      Lit (replicate 70 (CHR ''='')), Lit [CHR 0x0A]]) \<and>
   credentials_message =
     [Lit (replicate 70 (CHR ''='')), Lit [CHR 0x0A],
      Lit ''OANDA API CREDENTIALS REQUIRED'', Lit [CHR 0x0A],
      Lit (replicate 70 (CHR ''='')), Lit [CHR 0x0A],
      Lit [CHR 0x0A],
      Lit ''Please set the following environment variables:'', Lit [CHR 0x0A],
      Lit (''  export OANDA_API_KEY='' @ [CHR 0x27] @ ''your_api_key'' @ [CHR 0x27]),
      Lit [CHR 0x0A],
      Lit (''  export OANDA_ACCOUNT_ID='' @ [CHR 0x27] @ ''your_account_id'' @ [CHR 0x27]),
      Lit [CHR 0x0A],
      Lit [CHR 0x0A],
      Lit ''Or configure them as GitHub Secrets and run via GitHub Actions.'', Lit [CHR 0x0A],
      Lit (replicate 70 (CHR ''='')), Lit [CHR 0x0A]] \<and>
   Lit ''OANDA API CREDENTIALS REQUIRED'' \<in> set credentials_message \<and>
   Lit (''  export OANDA_API_KEY='' @ [CHR 0x27] @ ''your_api_key'' @ [CHR 0x27])
     \<in> set credentials_message \<and>
   Lit (''  export OANDA_ACCOUNT_ID='' @ [CHR 0x27] @ ''your_account_id'' @ [CHR 0x27])
     \<in> set credentials_message \<and>
   (getenv ''OANDA_API_KEY'' = Some k \<and> k \<noteq> [] \<and>
    getenv ''OANDA_ACCOUNT_ID'' = Some a \<and> a \<noteq> [] \<longrightarrow>
      check_credentials getenv = ([], True) \<and>
      (\<exists>out. run_full_backtest cfg sim now = Inr out \<and>
             script getenv cfg sim now = Completed out))"
proof -
  obtain out where out: "run_full_backtest cfg sim now = Inr out"
    using run_returns by blast
  have msg: "credentials_message =
     [Lit (replicate 70 (CHR ''='')), Lit [CHR 0x0A],
      Lit ''OANDA API CREDENTIALS REQUIRED'', Lit [CHR 0x0A],
      Lit (replicate 70 (CHR ''='')), Lit [CHR 0x0A],
      Lit [CHR 0x0A],
      Lit ''Please set the following environment variables:'', Lit [CHR 0x0A],
      Lit (''  export OANDA_API_KEY='' @ [CHR 0x27] @ ''your_api_key'' @ [CHR 0x27]),
      Lit [CHR 0x0A],
      Lit (''  export OANDA_ACCOUNT_ID='' @ [CHR 0x27] @ ''your_account_id'' @ [CHR 0x27]),
      Lit [CHR 0x0A],
      Lit [CHR 0x0A],
      Lit ''Or configure them as GitHub Secrets and run via GitHub Actions.'', Lit [CHR 0x0A],
      Lit (replicate 70 (CHR ''='')), Lit [CHR 0x0A]]"
    by (simp add: credentials_message_def py_print_def rule70_def nl_def)
  have names: "Lit ''OANDA API CREDENTIALS REQUIRED'' \<in> set credentials_message"
    "Lit (''  export OANDA_API_KEY='' @ [CHR 0x27] @ ''your_api_key'' @ [CHR 0x27])
       \<in> set credentials_message"
    "Lit (''  export OANDA_ACCOUNT_ID='' @ [CHR 0x27] @ ''your_account_id'' @ [CHR 0x27])
       \<in> set credentials_message"
    by (simp_all add: credentials_message_def py_print_def)
  have gate: "(getenv ''OANDA_API_KEY'' = None \<or> getenv ''OANDA_API_KEY'' = Some [] \<or>
      getenv ''OANDA_ACCOUNT_ID'' = None \<or> getenv ''OANDA_ACCOUNT_ID'' = Some [] \<longrightarrow>
        check_credentials getenv = (credentials_message, False) \<and>
        script getenv cfg sim now = Sys_exit 1 credentials_message) \<and>
     (getenv ''OANDA_API_KEY'' = Some k \<and> k \<noteq> [] \<and>
      getenv ''OANDA_ACCOUNT_ID'' = Some a \<and> a \<noteq> [] \<longrightarrow>
        check_credentials getenv = ([], True) \<and>
        (\<exists>out. run_full_backtest cfg sim now = Inr out \<and>
               script getenv cfg sim now = Completed out))"
    by (auto simp: check_credentials_def script_def py_not_def Let_def out)
  have exit: "script getenv cfg sim now = Sys_exit 1
     [Lit (replicate 70 (CHR ''='')), Lit [CHR 0x0A],
      Lit ''OANDA API CREDENTIALS REQUIRED'', Lit [CHR 0x0A],
      Lit (replicate 70 (CHR ''='')), Lit [CHR 0x0A],
      Lit [CHR 0x0A],
      Lit ''Please set the following environment variables:'', Lit [CHR 0x0A],
      Lit (''  export OANDA_API_KEY='' @ [CHR 0x27] @ ''your_api_key'' @ [CHR 0x27]),
      Lit [CHR 0x0A],
      Lit (''  export OANDA_ACCOUNT_ID='' @ [CHR 0x27] @ ''your_account_id'' @ [CHR 0x27]),
      Lit [CHR 0x0A],
      Lit [CHR 0x0A],
      Lit ''Or configure them as GitHub Secrets and run via GitHub Actions.'', Lit [CHR 0x0A],
      Lit (replicate 70 (CHR ''='')), Lit [CHR 0x0A]]"
    if "script getenv cfg sim now = Sys_exit 1 credentials_message"
    using that msg by simp
  from gate msg names exit show ?thesis
    by blast
qed

theorem credential_gate_witness:
  "env_empty_id ''OANDA_ACCOUNT_ID'' = Some [] \<and>
   script env_empty_id demo_config demo_sim ''2024-12-31T00:00:00'' =
     Sys_exit 1
     [Lit (replicate 70 (CHR ''='')), Lit [CHR 0x0A],
      Lit ''OANDA API CREDENTIALS REQUIRED'', Lit [CHR 0x0A],
      Lit (replicate 70 (CHR ''='')), Lit [CHR 0x0A],
      Lit [CHR 0x0A],
      Lit ''Please set the following environment variables:'', Lit [CHR 0x0A],
      Lit (''  export OANDA_API_KEY='' @ [CHR 0x27] @ ''your_api_key'' @ [CHR 0x27]),
      Lit [CHR 0x0A],
      Lit (''  export OANDA_ACCOUNT_ID='' @ [CHR 0x27] @ ''your_account_id'' @ [CHR 0x27]),
      Lit [CHR 0x0A],
      Lit [CHR 0x0A],
      Lit ''Or configure them as GitHub Secrets and run via GitHub Actions.'', Lit [CHR 0x0A],
      Lit (replicate 70 (CHR ''='')), Lit [CHR 0x0A]] \<and>
   Map.empty ''OANDA_API_KEY'' = (None :: string option) \<and>
   script Map.empty demo_config demo_sim ''2024-12-31T00:00:00'' =
     Sys_exit 1
     [Lit (replicate 70 (CHR ''='')), Lit [CHR 0x0A],
      Lit ''OANDA API CREDENTIALS REQUIRED'', Lit [CHR 0x0A],
      Lit (replicate 70 (CHR ''='')), Lit [CHR 0x0A],
      Lit [CHR 0x0A],
      Lit ''Please set the following environment variables:'', Lit [CHR 0x0A],
      Lit (''  export OANDA_API_KEY='' @ [CHR 0x27] @ ''your_api_key'' @ [CHR 0x27]),
      Lit [CHR 0x0A],
      Lit (''  export OANDA_ACCOUNT_ID='' @ [CHR 0x27] @ ''your_account_id'' @ [CHR 0x27]),
      Lit [CHR 0x0A],
      Lit [CHR 0x0A],
      Lit ''Or configure them as GitHub Secrets and run via GitHub Actions.'', Lit [CHR 0x0A],
      Lit (replicate 70 (CHR ''='')), Lit [CHR 0x0A]] \<and>
   env_both ''OANDA_API_KEY'' = Some ''key'' \<and>
   env_both ''OANDA_ACCOUNT_ID'' = Some ''001-001'' \<and>
   check_credentials env_both = ([], True) \<and>
   (\<exists>out. script env_both demo_config demo_sim ''2024-12-31T00:00:00'' = Completed out)"
proof -
  note a = credential_gate [where getenv = env_empty_id and cfg = demo_config and sim = demo_sim
                              and now = "''2024-12-31T00:00:00''", THEN conjunct1]
  note b = credential_gate [where getenv = Map.empty and cfg = demo_config and sim = demo_sim
                              and now = "''2024-12-31T00:00:00''", THEN conjunct1]
  note c = credential_gate [where getenv = env_both and k = "''key''" and a = "''001-001''"
                              and cfg = demo_config and sim = demo_sim
                              and now = "''2024-12-31T00:00:00''",
                            THEN conjunct2, THEN conjunct2, THEN conjunct2, THEN conjunct2,
                            THEN conjunct2]
  have e: "env_empty_id ''OANDA_ACCOUNT_ID'' = Some []"
    by (simp add: env_empty_id_def)
  have k: "env_both ''OANDA_API_KEY'' = Some ''key''" "env_both ''OANDA_ACCOUNT_ID'' = Some ''001-001''"
    by (simp_all add: env_both_def)
  from a e have ra: "script env_empty_id demo_config demo_sim ''2024-12-31T00:00:00'' =
     Sys_exit 1
     [Lit (replicate 70 (CHR ''='')), Lit [CHR 0x0A],
      Lit ''OANDA API CREDENTIALS REQUIRED'', Lit [CHR 0x0A],
      Lit (replicate 70 (CHR ''='')), Lit [CHR 0x0A],
      Lit [CHR 0x0A],
      Lit ''Please set the following environment variables:'', Lit [CHR 0x0A],
      Lit (''  export OANDA_API_KEY='' @ [CHR 0x27] @ ''your_api_key'' @ [CHR 0x27]),
      Lit [CHR 0x0A],
      Lit (''  export OANDA_ACCOUNT_ID='' @ [CHR 0x27] @ ''your_account_id'' @ [CHR 0x27]),
      Lit [CHR 0x0A],
      Lit [CHR 0x0A],
      Lit ''Or configure them as GitHub Secrets and run via GitHub Actions.'', Lit [CHR 0x0A],
      Lit (replicate 70 (CHR ''='')), Lit [CHR 0x0A]]"
    by blast
  have m: "(Map.empty :: string \<rightharpoonup> string) ''OANDA_API_KEY'' = None"
    by simp
  from b m have rb: "script Map.empty demo_config demo_sim ''2024-12-31T00:00:00'' =
     Sys_exit 1
     [Lit (replicate 70 (CHR ''='')), Lit [CHR 0x0A],
      Lit ''OANDA API CREDENTIALS REQUIRED'', Lit [CHR 0x0A],
      Lit (replicate 70 (CHR ''='')), Lit [CHR 0x0A],
      Lit [CHR 0x0A],
      Lit ''Please set the following environment variables:'', Lit [CHR 0x0A],
      Lit (''  export OANDA_API_KEY='' @ [CHR 0x27] @ ''your_api_key'' @ [CHR 0x27]),
      Lit [CHR 0x0A],
      Lit (''  export OANDA_ACCOUNT_ID='' @ [CHR 0x27] @ ''your_account_id'' @ [CHR 0x27]),
      Lit [CHR 0x0A],
      Lit [CHR 0x0A],
      Lit ''Or configure them as GitHub Secrets and run via GitHub Actions.'', Lit [CHR 0x0A],
      Lit (replicate 70 (CHR ''='')), Lit [CHR 0x0A]]"
    by blast
  from c k have rc: "check_credentials env_both = ([], True) \<and>
     (\<exists>out. script env_both demo_config demo_sim ''2024-12-31T00:00:00'' = Completed out)"
    by auto
  from e ra rb k rc show ?thesis
    by simp
qed

text \<open>
  Claim C9. The timestamp enters the document of lines 164-197 in the field
  \<open>generated_at\<close> only. Two runs on the same configuration and simulation results that read
  the clock at \<open>now\<close> and \<open>now'\<close> write documents that are equal once \<open>generated_at\<close>
  is set to a common value, so any serialisation \<open>json_dump\<close> that is a function of the
  document gives the same bytes for both then, and gives the same bytes outright when the
  two timestamps agree. \<^verbatim>\<open>json.dump\<close> is the library's; it is a parameter here.
\<close>

theorem artifact_deterministic:
  assumes "run_full_backtest cfg sim now = Inr out"
    and "run_full_backtest cfg sim now' = Inr out'"
  shows "make_output_data cfg now rs n wr r ar eb =
           (make_output_data cfg now' rs n wr r ar eb)\<lparr>generated_at := now\<rparr> \<and>
         written out = map_option (\<lambda>d. d\<lparr>generated_at := now\<rparr>) (written out') \<and>
         map_option (\<lambda>d. json_dump (d\<lparr>generated_at := t\<rparr>)) (written out) =
           map_option (\<lambda>d. json_dump (d\<lparr>generated_at := t\<rparr>)) (written out') \<and>
         (now = now' \<longrightarrow> map_option json_dump (written out) = map_option json_dump (written out'))"
proof -
  let ?st = "run_loop sim (all_assets cfg) (initial_state cfg)"
  have doc: "make_output_data cfg now rs n wr r ar eb =
               (make_output_data cfg now' rs n wr r ar eb)\<lparr>generated_at := now\<rparr>"
    by (simp add: make_output_data_def)
  have rep: "report_of cfg now ?st = (report_of cfg now' ?st)\<lparr>generated_at := now\<rparr>"
    by (simp add: report_of_def make_output_data_def)
  have w: "written out = map_option (\<lambda>d. d\<lparr>generated_at := now\<rparr>) (written out')"
  proof (cases "all_results ?st = []")
    case True
    then show ?thesis
      using assms by (auto simp: run_full_backtest_def summarise_empty)
  next
    case False
    obtain p where "run_full_backtest cfg sim now =
        Inr \<lparr> printed = p, written = Some (report_of cfg now ?st),
              returned = Some (report_of cfg now ?st) \<rparr>"
      using run_full_backtest_ok [OF refl False] by blast
    moreover obtain p' where "run_full_backtest cfg sim now' =
        Inr \<lparr> printed = p', written = Some (report_of cfg now' ?st),
              returned = Some (report_of cfg now' ?st) \<rparr>"
      using run_full_backtest_ok [OF refl False] by blast
    ultimately show ?thesis
      using assms rep by auto
  qed
  have same: "map_option (\<lambda>d. json_dump (d\<lparr>generated_at := t\<rparr>)) (written out) =
              map_option (\<lambda>d. json_dump (d\<lparr>generated_at := t\<rparr>)) (written out')"
    by (simp add: w option.map_comp comp_def)
  have "map_option json_dump (written out) = map_option json_dump (written out')" if "now = now'"
    using assms that by simp
  with doc w same show ?thesis by blast
qed

theorem artifact_deterministic_witness:
  "\<exists>out out'. run_full_backtest demo_config demo_sim ''2024-12-31T00:00:00'' = Inr out \<and>
      run_full_backtest demo_config demo_sim ''2025-01-01T09:30:00'' = Inr out' \<and>
      written out = map_option (\<lambda>d. d\<lparr>generated_at := ''2024-12-31T00:00:00''\<rparr>) (written out') \<and>
      map_option generated_at (written out) = Some ''2024-12-31T00:00:00'' \<and>
      map_option generated_at (written out') = Some ''2025-01-01T09:30:00''"
proof -
  let ?st = "run_loop demo_sim (all_assets demo_config) (initial_state demo_config)"
  have ne: "all_results ?st \<noteq> []"
    by (simp add: demo_all_results)
  obtain p where a: "run_full_backtest demo_config demo_sim ''2024-12-31T00:00:00'' =
        Inr \<lparr> printed = p, written = Some (report_of demo_config ''2024-12-31T00:00:00'' ?st),
              returned = Some (report_of demo_config ''2024-12-31T00:00:00'' ?st) \<rparr>"
    using run_full_backtest_ok [OF refl ne] by blast
  obtain p' where b: "run_full_backtest demo_config demo_sim ''2025-01-01T09:30:00'' =
        Inr \<lparr> printed = p', written = Some (report_of demo_config ''2025-01-01T09:30:00'' ?st),
              returned = Some (report_of demo_config ''2025-01-01T09:30:00'' ?st) \<rparr>"
    using run_full_backtest_ok [OF refl ne] by blast
  show ?thesis
    using artifact_deterministic [OF a b] a b
    by (simp add: report_of_def make_output_data_def)
qed

lemma win_rate_differs:
  fixes w k m :: int
  assumes "0 < k" and "0 < m" and "k \<noteq> m" and "w \<noteq> 0"
  shows "real_of_int w / real_of_int k * 100 \<noteq> real_of_int w / real_of_int m * 100"
  using assms by (auto simp: field_simps)

text \<open>
  Claim C10. A result that reports \<open>total_trades = k > 0\<close> with an absent or empty trade
  list still qualifies: the loop body appends its entry with \<open>total_r = 0\<close> and trade
  count \<open>k\<close>, adds \<open>k\<close> to \<open>total_trades_all\<close> and nothing to \<open>total_wins_all\<close> and
  \<open>total_r_all\<close>. The win rate of the returned summary is the number of wins counted in
  the entries' trade lists over the sum of the reported trade counts, times 100. For a list
  with a win, that rate over a reported count \<open>m\<close> differs from the rate over the length
  of the list whenever \<open>m\<close> is not that length.
\<close>

theorem reported_trades_without_list:
  assumes "run_backtest a period_label = Inr result"
    and "sim_result.total_trades result = Some k" and "0 < k"
    and "sim_result.trades result = None \<or> sim_result.trades result = Some []"
  shows "all_results (loop_body run_backtest n (i, a) s) = all_results s @ [make_entry a result] \<and>
         asset_summary.total_r (make_entry a result) = 0 \<and>
         asset_summary.trades (make_entry a result) = k \<and>
         total_trades_all (loop_body run_backtest n (i, a) s) = total_trades_all s + k \<and>
         total_wins_all (loop_body run_backtest n (i, a) s) = total_wins_all s \<and>
         total_r_all (loop_body run_backtest n (i, a) s) = total_r_all s \<and>
         (st = run_loop sim (all_assets cfg) (initial_state cfg) \<and> all_results st \<noteq> [] \<longrightarrow>
            (\<exists>out d. run_full_backtest cfg sim now = Inr out \<and> returned out = Some d \<and>
               summary.win_rate (summary d) =
                 real_of_int (sum_list (map (\<lambda>r. count_wins (entry_trades r)) (all_results st))) /
                 real_of_int (sum_list (map asset_summary.trades (all_results st))) * 100)) \<and>
         (0 < m \<and> ts \<noteq> [] \<and> m \<noteq> int (length ts) \<and> count_wins ts \<noteq> 0 \<longrightarrow>
            avg_win_rate (count_wins ts) m \<noteq> avg_win_rate (count_wins ts) (int (length ts)))"
proof -
  have q: "0 < get (sim_result.total_trades result) 0"
    using assms(2,3) by (simp add: get_def)
  have app: "appended run_backtest a = [make_entry a result]"
    using assms(1) q by (simp add: appended_def)
  have ts: "get (sim_result.trades result) [] = []"
    using assms(4) by (auto simp: get_def)
  have step: "all_results (loop_body run_backtest n (i, a) s) = all_results s @ [make_entry a result] \<and>
         asset_summary.total_r (make_entry a result) = 0 \<and>
         asset_summary.trades (make_entry a result) = k \<and>
         total_trades_all (loop_body run_backtest n (i, a) s) = total_trades_all s + k \<and>
         total_wins_all (loop_body run_backtest n (i, a) s) = total_wins_all s \<and>
         total_r_all (loop_body run_backtest n (i, a) s) = total_r_all s"
    using assms(2) ts
    by (simp add: loop_body_all_results loop_body_total_trades_all loop_body_total_wins_all
                  loop_body_total_r_all app)
       (simp add: make_entry_def entry_trades_def sum_rr_def count_wins_def get_def)
  have run: "\<exists>out d. run_full_backtest cfg sim now = Inr out \<and> returned out = Some d \<and>
               summary.win_rate (summary d) =
                 real_of_int (sum_list (map (\<lambda>r. count_wins (entry_trades r)) (all_results st))) /
                 real_of_int (sum_list (map asset_summary.trades (all_results st))) * 100"
    if st: "st = run_loop sim (all_assets cfg) (initial_state cfg)" and ne: "all_results st \<noteq> []"
  proof -
    obtain p where r: "run_full_backtest cfg sim now =
        Inr \<lparr> printed = p, written = Some (report_of cfg now st),
              returned = Some (report_of cfg now st) \<rparr>"
      using run_full_backtest_ok [OF st ne] by blast
    have "summary.win_rate (summary (report_of cfg now st)) =
            real_of_int (total_wins_all st) / real_of_int (total_trades_all st) * 100"
      by (simp add: report_of_def make_output_data_def)
    also have "total_wins_all st =
                 sum_list (map (\<lambda>r. count_wins (entry_trades r)) (all_results st))"
      using st by (simp add: run_loop_all_results run_loop_total_wins_all)
    also have "total_trades_all st = sum_list (map asset_summary.trades (all_results st))"
      using st by (simp add: run_loop_all_results run_loop_total_trades_all)
    finally show ?thesis
      using r by simp
  qed
  have differ: "avg_win_rate (count_wins ts) m \<noteq> avg_win_rate (count_wins ts) (int (length ts))"
    if "0 < m" and "ts \<noteq> []" and "m \<noteq> int (length ts)" and "count_wins ts \<noteq> 0"
  proof -
    have len: "0 < int (length ts)"
      using that(2) by simp
    show ?thesis
      using that(1) len win_rate_differs [OF that(1) len that(3) that(4)]
      by (simp add: avg_win_rate_def py_div_def)
  qed
  from step run differ show ?thesis by blast
qed

theorem reported_trades_without_list_witness:
  "ghost_sim ''EURUSD'' period_label = Inr (no_fields\<lparr> sim_result.total_trades := Some 3 \<rparr>) \<and>
   total_trades_all (loop_body ghost_sim 3 (1, ''EURUSD'') (initial_state demo_config)) = 3 \<and>
   total_wins_all (loop_body ghost_sim 3 (1, ''EURUSD'') (initial_state demo_config)) = 0 \<and>
   all_results (run_loop padded_sim (all_assets demo_config) (initial_state demo_config)) \<noteq> [] \<and>
   (\<exists>out d. run_full_backtest demo_config padded_sim ''2024-12-31T00:00:00'' = Inr out \<and>
      returned out = Some d \<and> summary.win_rate (summary d) = 25) \<and>
   avg_win_rate (count_wins [\<lparr>rr = Some 1\<rparr>]) 4 \<noteq>
     avg_win_rate (count_wins [\<lparr>rr = Some 1\<rparr>]) (int (length [\<lparr>rr = Some 1\<rparr>]))"
proof -
  let ?res = "no_fields\<lparr> sim_result.total_trades := Some 3 \<rparr>"
  let ?pad = "no_fields\<lparr> sim_result.total_trades := Some 4,
                         sim_result.trades := Some [\<lparr>rr = Some 1\<rparr>] \<rparr>"
  let ?st = "run_loop padded_sim (all_assets demo_config) (initial_state demo_config)"
  have a: "ghost_sim ''EURUSD'' period_label = Inr ?res"
    by (simp add: ghost_sim_def)
  have b: "sim_result.total_trades ?res = Some 3"
    by simp
  have c: "sim_result.trades ?res = None \<or> sim_result.trades ?res = Some []"
    by (simp add: no_fields_def)
  have rs: "all_results ?st = [make_entry ''EURUSD'' ?pad]"
    by (simp add: run_loop_all_results all_assets_def demo_config_def appended_def padded_sim_def
                  no_fields_def get_def)
  have w: "count_wins [\<lparr>rr = Some 1\<rparr>] = 1"
    by (simp add: count_wins_def get_def)
  show ?thesis
    using a rs w
      reported_trades_without_list [where run_backtest = ghost_sim and a = "''EURUSD''"
        and result = ?res and k = 3 and n = 3 and i = 1 and s = "initial_state demo_config"
        and st = ?st and sim = padded_sim and cfg = demo_config
        and now = "''2024-12-31T00:00:00''" and m = 4 and ts = "[\<lparr>rr = Some 1\<rparr>]",
        OF a b _ c]
    by (simp add: initial_state_def make_entry_def entry_trades_def get_def no_fields_def)
qed

end
